theory Spec2Isabelle
  imports Main
begin

section \<open>The io_uring file layer of helio (util/uring/uring_file.cc)\<close>

text \<open>
  The file layer issues every kernel operation through a \<^verbatim>\<open>FiberCall\<close>: it prepares one
  submission entry, suspends the fiber and resumes with the signed completion result.
  The proactor behind \<^verbatim>\<open>FiberCall\<close> is not part of the file; it is taken here as the
  list of completion results it will deliver, in order, together with a log of the
  entries submitted to it. A call that finds no completion left never resumes.

  Integers: \<^verbatim>\<open>IoResult\<close>, descriptors and \<^verbatim>\<open>off_t\<close> are \<open>int\<close>, \<^verbatim>\<open>size_t\<close> counts are
  \<open>nat\<close>. Completion results are errno values or byte counts and file offsets stay far
  below \<open>2 ^ 63\<close>, so no operation of the file wraps.
\<close>

subsection \<open>Data\<close>

record iovec =
  iov_base :: nat
  iov_len :: nat

datatype open_flag = O_RDONLY | O_WRONLY | O_CREAT | O_CLOEXEC | O_APPEND | O_TRUNC

datatype uring_op =
    PrepClose int
  | PrepWriteV int "iovec list" int nat
  | PrepReadV int "iovec list" int nat
  | PrepRead int nat nat nat
  | PrepOpenAt string "open_flag set" nat
  | PrepFadvise int nat nat

text \<open>
  \<open>PrepRead fd next len offset\<close> reads \<open>len\<close> bytes at file offset \<open>offset\<close> to the
  address \<open>next\<close>; \<open>PrepReadV fd iov offset flags\<close> and \<open>PrepWriteV\<close> cover the whole
  list \<open>iov\<close> (pointer and count of the source are one list here).
  \<open>PrepOpenAt path flags mode\<close> is always relative to \<^verbatim>\<open>AT_FDCWD\<close> and
  \<open>PrepFadvise fd offset len\<close> always advises \<^verbatim>\<open>POSIX_FADV_SEQUENTIAL\<close>.
\<close>

datatype error_code = ErrorCode (ec_value: int)

text \<open>
  \<open>ErrorCode n\<close> is \<^verbatim>\<open>error_code{n, system_category()}\<close>; \<open>ErrorCode 0\<close> is the empty
  \<^verbatim>\<open>error_code{}\<close>, which converts to \<^verbatim>\<open>false\<close>.
\<close>

datatype 'a outcome =
    Ret 'a
  | Abort
  | OutOfBounds
  | Blocked

text \<open>
  \<open>Ret x\<close>: the function returns \<open>x\<close>. \<open>Abort\<close>: a \<^verbatim>\<open>CHECK\<close> (or, in a debug build, a
  \<^verbatim>\<open>DCHECK\<close>) fails and the process terminates. \<open>OutOfBounds\<close>: the function reads the
  \<^verbatim>\<open>iovec\<close> array past its last entry. \<open>Blocked\<close>: the proactor never completes the
  operation, the fiber stays suspended.
  \<^verbatim>\<open>io::Result<size_t>\<close> is \<open>error_code + nat\<close>, with \<open>Inl\<close> the unexpected error.
\<close>

record env =
  pending :: "int list"
  issued :: "uring_op list"
  errno :: int
  sys_closed :: "int list"

text \<open>
  \<open>pending\<close>: the completion results still to be delivered; \<open>issued\<close>: the entries
  submitted to the proactor so far; \<open>errno\<close>: the thread's \<^verbatim>\<open>errno\<close>, which a completion
  does not set; \<open>sys_closed\<close>: the descriptors passed to the C library's \<^verbatim>\<open>close\<close>.
\<close>

record file_base =
  this_fd :: int

record ReadFileImpl = file_base +
  this_file_size :: nat

record WriteFileImpl = file_base +
  this_offs :: int
  this_create_file_name :: string

type_synonym LinuxFileImpl = file_base

text \<open>
  The members \<^verbatim>\<open>fd_\<close>, \<^verbatim>\<open>file_size_\<close>, \<^verbatim>\<open>offs_\<close> and \<^verbatim>\<open>create_file_name_\<close> are the
  fields \<open>this_fd\<close>, \<open>this_file_size\<close>, \<open>this_offs\<close> and \<open>this_create_file_name\<close>. The
  member \<^verbatim>\<open>proactor_\<close> is the \<open>env\<close> every function takes and returns.
\<close>

subsection \<open>The suspension primitive\<close>

definition FiberCall :: "uring_op \<Rightarrow> env \<Rightarrow> int option \<times> env" where
  "FiberCall sqe e =
     (case pending e of
        [] \<Rightarrow> (None, e\<lparr>issued := issued e @ [sqe]\<rparr>)
      | r # rs \<Rightarrow> (Some r, e\<lparr>pending := rs, issued := issued e @ [sqe]\<rparr>))"

subsection \<open>Descriptor lifecycle and positional primitives\<close>

definition CloseFile :: "int \<Rightarrow> env \<Rightarrow> error_code outcome \<times> env" where
  "CloseFile fd e =
     (if fd > 0 then
        (case FiberCall (PrepClose fd) e of
           (None, e') \<Rightarrow> (Blocked, e')
         | (Some io_res, e') \<Rightarrow>
             if io_res < 0 then (Ret (ErrorCode (- io_res)), e')
             else (Ret (ErrorCode 0), e'))
      else (Ret (ErrorCode 0), e))"

definition WriteSomeInternal ::
  "int \<Rightarrow> iovec list \<Rightarrow> int \<Rightarrow> nat \<Rightarrow> env \<Rightarrow> (error_code + nat) outcome \<times> env" where
  "WriteSomeInternal fd iov offset flags e =
     (if \<not> fd \<ge> 0 then (Abort, e)
      else if \<not> length iov > 0 then (Abort, e)
      else
        (case FiberCall (PrepWriteV fd iov offset flags) e of
           (None, e') \<Rightarrow> (Blocked, e')
         | (Some io_res, e') \<Rightarrow>
             if io_res < 0 then (Ret (Inl (ErrorCode (- io_res))), e')
             else (Ret (Inr (nat io_res)), e')))"

definition ReadSomeInternal ::
  "int \<Rightarrow> iovec list \<Rightarrow> int \<Rightarrow> nat \<Rightarrow> env \<Rightarrow> (error_code + nat) outcome \<times> env" where
  "ReadSomeInternal fd iov offset flags e =
     (if \<not> fd \<ge> 0 then (Abort, e)
      else if \<not> length iov > 0 then (Abort, e)
      else
        (case FiberCall (PrepReadV fd iov offset flags) e of
           (None, e') \<Rightarrow> (Blocked, e')
         | (Some io_res, e') \<Rightarrow>
             if io_res < 0 then (Ret (Inl (ErrorCode (- io_res))), e')
             else (Ret (Inr (nat io_res)), e')))"

subsection \<open>Close and destructors\<close>

definition ReadFileImpl_Close ::
  "ReadFileImpl \<Rightarrow> env \<Rightarrow> error_code outcome \<times> ReadFileImpl \<times> env" where
  "ReadFileImpl_Close f e =
     (case CloseFile (this_fd f) e of
        (Ret ec, e') \<Rightarrow> (Ret ec, f\<lparr>this_fd := - 1\<rparr>, e')
      | (out, e') \<Rightarrow> (out, f, e'))"

definition WriteFileImpl_Close ::
  "WriteFileImpl \<Rightarrow> env \<Rightarrow> error_code outcome \<times> WriteFileImpl \<times> env" where
  "WriteFileImpl_Close f e =
     (case CloseFile (this_fd f) e of
        (Ret ec, e') \<Rightarrow> (Ret ec, f\<lparr>this_fd := - 1\<rparr>, e')
      | (out, e') \<Rightarrow> (out, f, e'))"

definition LinuxFileImpl_Close ::
  "LinuxFileImpl \<Rightarrow> env \<Rightarrow> error_code outcome \<times> LinuxFileImpl \<times> env" where
  "LinuxFileImpl_Close f e =
     (case CloseFile (this_fd f) e of
        (Ret ec, e') \<Rightarrow> (Ret ec, f\<lparr>this_fd := - 1\<rparr>, e')
      | (out, e') \<Rightarrow> (out, f, e'))"

text \<open>The destructors call \<^verbatim>\<open>CloseFile\<close> and drop its result.\<close>

definition ReadFileImpl_dtor :: "ReadFileImpl \<Rightarrow> env \<Rightarrow> env" where
  "ReadFileImpl_dtor f e = snd (CloseFile (this_fd f) e)"

definition WriteFileImpl_dtor :: "WriteFileImpl \<Rightarrow> env \<Rightarrow> env" where
  "WriteFileImpl_dtor f e = snd (CloseFile (this_fd f) e)"

definition LinuxFileImpl_dtor :: "LinuxFileImpl \<Rightarrow> env \<Rightarrow> env" where
  "LinuxFileImpl_dtor f e = snd (CloseFile (this_fd f) e)"

subsection \<open>The read-only file\<close>

text \<open>
  \<^verbatim>\<open>ReadAll\<close>: the single-buffer retry loop. The loop keeps \<open>len\<close> as it is and moves
  \<open>offset\<close> and \<open>next\<close> forward; \<open>read_total\<close> is its running sum.
\<close>

function ReadAll_loop ::
  "int \<Rightarrow> nat \<Rightarrow> nat \<Rightarrow> nat \<Rightarrow> nat \<Rightarrow> env \<Rightarrow> (error_code + nat) outcome \<times> env" where
  "ReadAll_loop fd offset next len read_total e =
     (case FiberCall (PrepRead fd next len offset) e of
        (None, e') \<Rightarrow> (Blocked, e')
      | (Some io_res, e') \<Rightarrow>
          if io_res < 0 then (Ret (Inl (ErrorCode (- io_res))), e')
          else if io_res = 0 then (Ret (Inr read_total), e')
          else if read_total + nat io_res = len then (Ret (Inr (read_total + nat io_res)), e')
          else ReadAll_loop fd (offset + nat io_res) (next + nat io_res) len
                 (read_total + nat io_res) e')"
  by pat_completeness auto
termination
  by (relation "measure (\<lambda>(fd, offset, next, len, read_total, e). length (pending e))")
     (auto simp: FiberCall_def split: list.splits)

declare ReadAll_loop.simps [simp del]

definition ReadAll ::
  "bool \<Rightarrow> int \<Rightarrow> nat \<Rightarrow> nat \<Rightarrow> nat \<Rightarrow> env \<Rightarrow> (error_code + nat) outcome \<times> env" where
  "ReadAll dbg fd offset next len e =
     (if dbg \<and> \<not> len > 0 then (Abort, e)
      else ReadAll_loop fd offset next len 0 e)"

text \<open>
  The flag \<open>dbg\<close> says whether the \<^verbatim>\<open>DCHECK\<close>s are compiled in.

  \<^verbatim>\<open>while (len && v->iov_len <= read)\<close>: pass through all completed entries. The list is
  what \<^verbatim>\<open>v\<close> and \<^verbatim>\<open>len\<close> still cover.
\<close>

fun skip_completed :: "iovec list \<Rightarrow> nat \<Rightarrow> iovec list \<times> nat" where
  "skip_completed [] read = ([], read)"
| "skip_completed (x # xs) read =
     (if iov_len x \<le> read then skip_completed xs (read - iov_len x) else (x # xs, read))"

text \<open>
  The \<^verbatim>\<open>do ... while (len > 0)\<close> loop of \<^verbatim>\<open>ReadFileImpl::Read\<close>, entered with \<open>v\<close> the
  entries left and \<open>read_total\<close> the bytes counted so far.
\<close>

function Read_loop ::
  "bool \<Rightarrow> int \<Rightarrow> nat \<Rightarrow> iovec list \<Rightarrow> nat \<Rightarrow> env \<Rightarrow> (error_code + nat) outcome \<times> env" where
  "Read_loop dbg fd offset v read_total e =
     (case ReadSomeInternal fd v (int (offset + read_total)) 0 e of
        (Ret (Inl ec), e1) \<Rightarrow> (Ret (Inl ec), e1)
      | (Ret (Inr read), e1) \<Rightarrow>
          if read = 0 then (Ret (Inr read_total), e1)
          else
            (case skip_completed v read of
               (v1, read1) \<Rightarrow>
                 if read1 > 0 then
                   (case v1 of
                      [] \<Rightarrow> (if dbg then Abort else OutOfBounds, e1)
                    | x # rest \<Rightarrow>
                        (case ReadAll dbg fd (offset + (read_total + read))
                                (iov_base x + read1) (iov_len x - read1) e1 of
                           (Ret (Inl ec), e2) \<Rightarrow> (Ret (Inl ec), e2)
                         | (Ret (Inr res), e2) \<Rightarrow>
                             if res < iov_len x - read1
                             then (Ret (Inr (read_total + read + res)), e2)
                             else if length rest > 0
                             then Read_loop dbg fd offset rest (read_total + read + res) e2
                             else (Ret (Inr (read_total + read + res)), e2)
                         | (out, e2) \<Rightarrow> (out, e2)))
                 else if length v1 > 0
                 then Read_loop dbg fd offset v1 (read_total + read) e1
                 else (Ret (Inr (read_total + read)), e1))
      | (out, e1) \<Rightarrow> (out, e1))"
  by pat_completeness auto
termination
proof -
  have skip: "v1 = v \<and> read1 = read \<or> length v1 < length v"
    if "skip_completed v read = (v1, read1)" for v read v1 read1
    using that
  proof (induction v arbitrary: read)
    case Nil
    then show ?case by simp
  next
    case (Cons x xs)
    show ?case
    proof (cases "iov_len x \<le> read")
      case True
      with Cons.prems have "skip_completed xs (read - iov_len x) = (v1, read1)"
        by simp
      from Cons.IH [OF this] show ?thesis
        by auto
    next
      case False
      with Cons.prems show ?thesis
        by simp
    qed
  qed
  have partial: "length rest < length v"
    if "skip_completed v read = (x # rest, read1)" for v read x rest read1
    using skip [OF that] by auto
  have whole: "length v1 < length v"
    if "skip_completed v read = (v1, read1)" and "read \<noteq> 0" and "\<not> 0 < read1"
    for v read v1 read1
    using skip [OF that(1)] that(2,3) by auto
  show ?thesis
    by (relation "measure (\<lambda>(dbg, fd, offset, v, read_total, e). length v)")
       (auto dest: partial [OF sym] whole [OF sym])
qed

declare Read_loop.simps [simp del]

definition ReadFileImpl_Read ::
  "bool \<Rightarrow> ReadFileImpl \<Rightarrow> nat \<Rightarrow> iovec list \<Rightarrow> env \<Rightarrow> (error_code + nat) outcome \<times> env" where
  "ReadFileImpl_Read dbg f offset v e =
     (if dbg \<and> \<not> this_fd f \<ge> 0 then (Abort, e)
      else if length v = 0 then (Ret (Inr 0), e)
      else Read_loop dbg (this_fd f) offset v 0 e)"

definition ReadFileImpl_Size :: "ReadFileImpl \<Rightarrow> nat" where
  "ReadFileImpl_Size f = this_file_size f"

definition ReadFileImpl_Handle :: "ReadFileImpl \<Rightarrow> int" where
  "ReadFileImpl_Handle f = this_fd f"

subsection \<open>The append/truncate write file\<close>

definition WriteFileImpl_new :: "string \<Rightarrow> WriteFileImpl" where
  "WriteFileImpl_new file_name =
     \<lparr>this_fd = - 1, this_offs = 0, this_create_file_name = file_name\<rparr>"

text \<open>The mode \<^verbatim>\<open>0644\<close> is 420.\<close>

definition WriteFileImpl_Open ::
  "WriteFileImpl \<Rightarrow> open_flag set \<Rightarrow> env \<Rightarrow> error_code outcome \<times> WriteFileImpl \<times> env" where
  "WriteFileImpl_Open f flags e =
     (if \<not> this_fd f = - 1 then (Abort, f, e)
      else
        (case FiberCall (PrepOpenAt (this_create_file_name f) flags 420) e of
           (None, e') \<Rightarrow> (Blocked, f, e')
         | (Some io_res, e') \<Rightarrow>
             if io_res < 0 then (Ret (ErrorCode (- io_res)), f, e')
             else (Ret (ErrorCode 0), f\<lparr>this_fd := io_res\<rparr>, e')))"

definition WriteFileImpl_WriteSome ::
  "WriteFileImpl \<Rightarrow> iovec list \<Rightarrow> env \<Rightarrow> (error_code + nat) outcome \<times> WriteFileImpl \<times> env" where
  "WriteFileImpl_WriteSome f v e =
     (case WriteSomeInternal (this_fd f) v (this_offs f) 0 e of
        (Ret (Inr n), e') \<Rightarrow> (Ret (Inr n), f\<lparr>this_offs := this_offs f + int n\<rparr>, e')
      | (out, e') \<Rightarrow> (out, f, e'))"

subsection \<open>The generic positional file\<close>

definition LinuxFileImpl_WriteSome ::
  "LinuxFileImpl \<Rightarrow> iovec list \<Rightarrow> int \<Rightarrow> nat \<Rightarrow> env \<Rightarrow> (error_code + nat) outcome \<times> env" where
  "LinuxFileImpl_WriteSome f iov offset flags e =
     WriteSomeInternal (this_fd f) iov offset flags e"

definition LinuxFileImpl_ReadSome ::
  "LinuxFileImpl \<Rightarrow> iovec list \<Rightarrow> int \<Rightarrow> nat \<Rightarrow> env \<Rightarrow> (error_code + nat) outcome \<times> env" where
  "LinuxFileImpl_ReadSome f iov offset flags e =
     ReadSomeInternal (this_fd f) iov offset flags e"

subsection \<open>Factories\<close>

text \<open>
  The factories run on a thread whose proactor is the \<open>env\<close> (\<^verbatim>\<open>ProactorBase::me()\<close> is
  not null and of kind \<^verbatim>\<open>IOURING\<close>).
\<close>

definition OpenWrite :: "string \<Rightarrow> bool \<Rightarrow> env \<Rightarrow> (error_code + WriteFileImpl) outcome \<times> env" where
  "OpenWrite path opts_append e =
     (let flags = {O_CREAT, O_WRONLY, O_CLOEXEC} \<union> (if opts_append then {O_APPEND} else {O_TRUNC})
      in case WriteFileImpl_Open (WriteFileImpl_new path) flags e of
           (Ret ec, impl, e') \<Rightarrow>
             if ec \<noteq> ErrorCode 0 then (Ret (Inl ec), WriteFileImpl_dtor impl e')
             else (Ret (Inr impl), e')
         | (Abort, impl, e') \<Rightarrow> (Abort, e')
         | (OutOfBounds, impl, e') \<Rightarrow> (OutOfBounds, e')
         | (Blocked, impl, e') \<Rightarrow> (Blocked, e'))"

text \<open>
  \<^verbatim>\<open>fstat\<close> and \<^verbatim>\<open>close\<close> are the C library's calls, outside the proactor. What \<^verbatim>\<open>fstat\<close>
  finds is the parameter \<open>st\<close>: \<open>Inl n\<close> when it fails and sets \<^verbatim>\<open>errno\<close> to \<open>n\<close>,
  \<open>Inr sz\<close> when it succeeds with \<^verbatim>\<open>st_size\<close> \<open>sz\<close>. The result of \<^verbatim>\<open>close\<close> is never
  read.
\<close>

definition fstat :: "int \<Rightarrow> int + nat \<Rightarrow> env \<Rightarrow> int \<times> nat \<times> env" where
  "fstat fd st e =
     (case st of
        Inl n \<Rightarrow> (- 1, 0, e\<lparr>errno := n\<rparr>)
      | Inr sz \<Rightarrow> (0, sz, e))"

definition sys_close :: "int \<Rightarrow> env \<Rightarrow> env" where
  "sys_close fd e = e\<lparr>sys_closed := sys_closed e @ [fd]\<rparr>"

definition OpenRead ::
  "string \<Rightarrow> int + nat \<Rightarrow> env \<Rightarrow> (error_code + ReadFileImpl) outcome \<times> env" where
  "OpenRead path st e =
     (let flags = {O_RDONLY, O_CLOEXEC}
      in case FiberCall (PrepOpenAt path flags 0) e of
           (None, e1) \<Rightarrow> (Blocked, e1)
         | (Some io_res, e1) \<Rightarrow>
             if io_res < 0 then (Ret (Inl (ErrorCode (- io_res))), e1)
             else
               (let fd = io_res
                in case fstat fd st e1 of
                     (rc, st_size, e2) \<Rightarrow>
                       if rc < 0 then
                         (let en = errno e2
                          in (Ret (Inl (ErrorCode en)), sys_close fd e2))
                       else
                         (case FiberCall (PrepFadvise fd 0 0) e2 of
                            (None, e3) \<Rightarrow> (Blocked, e3)
                          | (Some io_res, e3) \<Rightarrow>
                              if io_res < 0 then
                                (let en = errno e3
                                 in (Ret (Inl (ErrorCode en)), sys_close fd e3))
                              else
                                (Ret (Inr \<lparr>this_fd = fd, this_file_size = st_size\<rparr>), e3))))"

definition OpenLinux ::
  "string \<Rightarrow> open_flag set \<Rightarrow> nat \<Rightarrow> env \<Rightarrow> (error_code + LinuxFileImpl) outcome \<times> env" where
  "OpenLinux path flags mode e =
     (case FiberCall (PrepOpenAt path flags mode) e of
        (None, e') \<Rightarrow> (Blocked, e')
      | (Some io_res, e') \<Rightarrow>
          if io_res < 0 then (Ret (Inl (ErrorCode (- io_res))), e')
          else (Ret (Inr \<lparr>this_fd = io_res\<rparr>), e'))"

subsection \<open>Callers\<close>

text \<open>
  A caller of the write file: one \<^verbatim>\<open>WriteSome\<close> per buffer list, in order, for as long
  as the calls return; the result lists what they returned. \<open>written\<close> is the byte
  count of one result (none for an error).
\<close>

fun write_calls ::
  "WriteFileImpl \<Rightarrow> iovec list list \<Rightarrow> env \<Rightarrow> (error_code + nat) list \<times> WriteFileImpl \<times> env"
  where
  "write_calls f [] e = ([], f, e)"
| "write_calls f (v # vs) e =
     (case WriteFileImpl_WriteSome f v e of
        (Ret r, f', e') \<Rightarrow>
          (case write_calls f' vs e' of (rs, f'', e'') \<Rightarrow> (r # rs, f'', e''))
      | (out, f', e') \<Rightarrow> ([], f', e'))"

fun written :: "error_code + nat \<Rightarrow> nat" where
  "written (Inl ec) = 0"
| "written (Inr b) = b"

text \<open>
  A caller of the read-only file: reads and closes in any order, for as long as the
  calls return.
\<close>

datatype reader_call = CallRead nat "iovec list" | CallClose

fun reader_calls :: "bool \<Rightarrow> ReadFileImpl \<Rightarrow> reader_call list \<Rightarrow> env \<Rightarrow> ReadFileImpl \<times> env" where
  "reader_calls dbg f [] e = (f, e)"
| "reader_calls dbg f (CallRead offset v # cs) e =
     (case ReadFileImpl_Read dbg f offset v e of
        (Ret r, e') \<Rightarrow> reader_calls dbg f cs e'
      | (out, e') \<Rightarrow> (f, e'))"
| "reader_calls dbg f (CallClose # cs) e =
     (case ReadFileImpl_Close f e of
        (Ret ec, f', e') \<Rightarrow> reader_calls dbg f' cs e'
      | (out, f', e') \<Rightarrow> (f', e'))"

text \<open>
  What a submission entry asks for, in bytes, and whether a completion result stays
  within it.
\<close>

fun asked :: "uring_op \<Rightarrow> nat" where
  "asked (PrepRead fd next len offset) = len"
| "asked (PrepReadV fd iov offset flags) = sum_list (map iov_len iov)"
| "asked (PrepWriteV fd iov offset flags) = sum_list (map iov_len iov)"
| "asked (PrepClose fd) = 0"
| "asked (PrepOpenAt path flags mode) = 0"
| "asked (PrepFadvise fd offset len) = 0"

fun fits :: "uring_op \<times> int \<Rightarrow> bool" where
  "fits (sqe, r) = (r \<le> int (asked sqe))"


section \<open>Properties\<close>

subsection \<open>Facts about the primitives\<close>

lemma FiberCall_Cons:
  "pending e = r # rs \<Longrightarrow>
   FiberCall sqe e = (Some r, e\<lparr>pending := rs, issued := issued e @ [sqe]\<rparr>)"
  by (simp add: FiberCall_def)

lemma FiberCall_issued: "issued (snd (FiberCall sqe e)) = issued e @ [sqe]"
  by (simp add: FiberCall_def split: list.split)

lemma CloseFile_not_positive: "fd \<le> 0 \<Longrightarrow> CloseFile fd e = (Ret (ErrorCode 0), e)"
  by (simp add: CloseFile_def)

lemma CloseFile_issued:
  "issued (snd (CloseFile fd e)) = (if fd > 0 then issued e @ [PrepClose fd] else issued e)"
  by (simp add: CloseFile_def FiberCall_def split: list.split)

subsection \<open>Error mapping of the positional primitives\<close>

text \<open>
  Claim C5. A call of \<^verbatim>\<open>ReadSomeInternal\<close> or \<^verbatim>\<open>WriteSomeInternal\<close> on a descriptor that is
  not negative and a buffer list that is not empty submits one entry. When the proactor
  completes it with the result \<open>r\<close>, the call returns the error with code \<open>- r\<close> if \<open>r\<close>
  is negative and the byte count \<open>r\<close> otherwise, whatever length was asked for.
\<close>

theorem error_mapping:
  assumes "fd \<ge> 0" and "iov \<noteq> []" and "pending e = r # rs"
  shows "ReadSomeInternal fd iov offset flags e =
           (Ret (if r < 0 then Inl (ErrorCode (- r)) else Inr (nat r)),
            e\<lparr>pending := rs, issued := issued e @ [PrepReadV fd iov offset flags]\<rparr>)
       \<and> WriteSomeInternal fd iov offset flags e =
           (Ret (if r < 0 then Inl (ErrorCode (- r)) else Inr (nat r)),
            e\<lparr>pending := rs, issued := issued e @ [PrepWriteV fd iov offset flags]\<rparr>)"
  using assms by (simp add: ReadSomeInternal_def WriteSomeInternal_def FiberCall_Cons)

theorem error_mapping_witness:
  "ReadSomeInternal 3 [\<lparr>iov_base = 1000, iov_len = 8\<rparr>] 16 0
     \<lparr>pending = [- 5], issued = [], errno = 0, sys_closed = []\<rparr> =
     (Ret (Inl (ErrorCode 5)),
      \<lparr>pending = [], issued = [PrepReadV 3 [\<lparr>iov_base = 1000, iov_len = 8\<rparr>] 16 0],
       errno = 0, sys_closed = []\<rparr>)
   \<and> WriteSomeInternal 3 [\<lparr>iov_base = 1000, iov_len = 8\<rparr>] 16 0
     \<lparr>pending = [6, 1], issued = [], errno = 0, sys_closed = []\<rparr> =
     (Ret (Inr 6),
      \<lparr>pending = [1], issued = [PrepWriteV 3 [\<lparr>iov_base = 1000, iov_len = 8\<rparr>] 16 0],
       errno = 0, sys_closed = []\<rparr>)"
  using error_mapping [of 3 "[\<lparr>iov_base = 1000, iov_len = 8\<rparr>]"
      "\<lparr>pending = [- 5], issued = [], errno = 0, sys_closed = []\<rparr>" "- 5" "[]" 16 0]
    error_mapping [of 3 "[\<lparr>iov_base = 1000, iov_len = 8\<rparr>]"
      "\<lparr>pending = [6, 1], issued = [], errno = 0, sys_closed = []\<rparr>" 6 "[1]" 16 0]
  by simp

subsection \<open>Closing\<close>

text \<open>
  Claim C10. \<^verbatim>\<open>CloseFile\<close> submits a close entry exactly when the descriptor is greater
  than zero. For every descriptor that is zero or negative it returns success and leaves
  the proactor as it was; so a read-only file that holds descriptor 0 is closed neither
  by \<^verbatim>\<open>Close\<close> nor by its destructor: neither submits anything.
\<close>

theorem close_only_positive:
  "issued (snd (CloseFile fd e)) = (if fd > 0 then issued e @ [PrepClose fd] else issued e)
   \<and> (fd \<le> 0 \<longrightarrow> CloseFile fd e = (Ret (ErrorCode 0), e))
   \<and> (this_fd f = 0 \<longrightarrow>
        ReadFileImpl_Close f e = (Ret (ErrorCode 0), f\<lparr>this_fd := - 1\<rparr>, e)
        \<and> ReadFileImpl_dtor f e = e)"
  by (simp add: CloseFile_issued CloseFile_not_positive ReadFileImpl_Close_def
      ReadFileImpl_dtor_def)

theorem close_only_positive_witness:
  "CloseFile 0 \<lparr>pending = [0], issued = [], errno = 0, sys_closed = []\<rparr> =
     (Ret (ErrorCode 0), \<lparr>pending = [0], issued = [], errno = 0, sys_closed = []\<rparr>)
   \<and> ReadFileImpl_Close \<lparr>this_fd = 0, this_file_size = 7\<rparr>
       \<lparr>pending = [0], issued = [], errno = 0, sys_closed = []\<rparr> =
     (Ret (ErrorCode 0), \<lparr>this_fd = - 1, this_file_size = 7\<rparr>,
      \<lparr>pending = [0], issued = [], errno = 0, sys_closed = []\<rparr>)
   \<and> ReadFileImpl_dtor \<lparr>this_fd = 0, this_file_size = 7\<rparr>
       \<lparr>pending = [0], issued = [], errno = 0, sys_closed = []\<rparr> =
     \<lparr>pending = [0], issued = [], errno = 0, sys_closed = []\<rparr>"
  using close_only_positive [of 0 "\<lparr>pending = [0], issued = [], errno = 0, sys_closed = []\<rparr>"
      "\<lparr>this_fd = 0, this_file_size = 7\<rparr>"]
  by simp

text \<open>
  Claim C4. When \<^verbatim>\<open>Close\<close> has returned on a file (read-only, write or generic), with
  whatever error code, a second \<^verbatim>\<open>Close\<close> returns success and leaves the proactor as it
  was: it submits no entry. \<^verbatim>\<open>CloseFile\<close> on the closed value \<open>- 1\<close> returns success and
  submits nothing.
\<close>

theorem idempotent_close:
  "(ReadFileImpl_Close fr e = (Ret ec, fr1, e1) \<longrightarrow>
      ReadFileImpl_Close fr1 e1 = (Ret (ErrorCode 0), fr1, e1))
   \<and> (WriteFileImpl_Close fw e = (Ret ec, fw1, e1) \<longrightarrow>
      WriteFileImpl_Close fw1 e1 = (Ret (ErrorCode 0), fw1, e1))
   \<and> (LinuxFileImpl_Close fl e = (Ret ec, fl1, e1) \<longrightarrow>
      LinuxFileImpl_Close fl1 e1 = (Ret (ErrorCode 0), fl1, e1))
   \<and> CloseFile (- 1) e = (Ret (ErrorCode 0), e)"
proof -
  have r: "ReadFileImpl_Close fr1 e1 = (Ret (ErrorCode 0), fr1, e1)"
    if "ReadFileImpl_Close fr e = (Ret ec, fr1, e1)"
  proof -
    from that have "this_fd fr1 = - 1"
      by (auto simp: ReadFileImpl_Close_def split: prod.splits outcome.splits)
    then show ?thesis
      by (simp add: ReadFileImpl_Close_def CloseFile_not_positive)
  qed
  have w: "WriteFileImpl_Close fw1 e1 = (Ret (ErrorCode 0), fw1, e1)"
    if "WriteFileImpl_Close fw e = (Ret ec, fw1, e1)"
  proof -
    from that have "this_fd fw1 = - 1"
      by (auto simp: WriteFileImpl_Close_def split: prod.splits outcome.splits)
    then show ?thesis
      by (simp add: WriteFileImpl_Close_def CloseFile_not_positive)
  qed
  have l: "LinuxFileImpl_Close fl1 e1 = (Ret (ErrorCode 0), fl1, e1)"
    if "LinuxFileImpl_Close fl e = (Ret ec, fl1, e1)"
  proof -
    from that have "this_fd fl1 = - 1"
      by (auto simp: LinuxFileImpl_Close_def split: prod.splits outcome.splits)
    then show ?thesis
      by (simp add: LinuxFileImpl_Close_def CloseFile_not_positive)
  qed
  from r w l show ?thesis
    by (simp add: CloseFile_not_positive)
qed

theorem idempotent_close_witness:
  "ReadFileImpl_Close \<lparr>this_fd = 5, this_file_size = 7\<rparr>
     \<lparr>pending = [- 9], issued = [], errno = 0, sys_closed = []\<rparr> =
     (Ret (ErrorCode 9), \<lparr>this_fd = - 1, this_file_size = 7\<rparr>,
      \<lparr>pending = [], issued = [PrepClose 5], errno = 0, sys_closed = []\<rparr>)
   \<and> ReadFileImpl_Close \<lparr>this_fd = - 1, this_file_size = 7\<rparr>
     \<lparr>pending = [], issued = [PrepClose 5], errno = 0, sys_closed = []\<rparr> =
     (Ret (ErrorCode 0), \<lparr>this_fd = - 1, this_file_size = 7\<rparr>,
      \<lparr>pending = [], issued = [PrepClose 5], errno = 0, sys_closed = []\<rparr>)
   \<and> WriteFileImpl_Close \<lparr>this_fd = 5, this_offs = 12, this_create_file_name = ''log''\<rparr>
     \<lparr>pending = [0, 3], issued = [], errno = 0, sys_closed = []\<rparr> =
     (Ret (ErrorCode 0), \<lparr>this_fd = - 1, this_offs = 12, this_create_file_name = ''log''\<rparr>,
      \<lparr>pending = [3], issued = [PrepClose 5], errno = 0, sys_closed = []\<rparr>)
   \<and> WriteFileImpl_Close \<lparr>this_fd = - 1, this_offs = 12, this_create_file_name = ''log''\<rparr>
     \<lparr>pending = [3], issued = [PrepClose 5], errno = 0, sys_closed = []\<rparr> =
     (Ret (ErrorCode 0), \<lparr>this_fd = - 1, this_offs = 12, this_create_file_name = ''log''\<rparr>,
      \<lparr>pending = [3], issued = [PrepClose 5], errno = 0, sys_closed = []\<rparr>)
   \<and> LinuxFileImpl_Close \<lparr>this_fd = 5\<rparr>
     \<lparr>pending = [0, 3], issued = [], errno = 0, sys_closed = []\<rparr> =
     (Ret (ErrorCode 0), \<lparr>this_fd = - 1\<rparr>,
      \<lparr>pending = [3], issued = [PrepClose 5], errno = 0, sys_closed = []\<rparr>)
   \<and> LinuxFileImpl_Close \<lparr>this_fd = - 1\<rparr>
     \<lparr>pending = [3], issued = [PrepClose 5], errno = 0, sys_closed = []\<rparr> =
     (Ret (ErrorCode 0), \<lparr>this_fd = - 1\<rparr>,
      \<lparr>pending = [3], issued = [PrepClose 5], errno = 0, sys_closed = []\<rparr>)"
proof -
  let ?E1 = "\<lparr>pending = [], issued = [PrepClose 5], errno = 0, sys_closed = []\<rparr>"
  let ?E2 = "\<lparr>pending = [3], issued = [PrepClose 5], errno = 0, sys_closed = []\<rparr>"
  have r: "ReadFileImpl_Close \<lparr>this_fd = 5, this_file_size = 7\<rparr>
     \<lparr>pending = [- 9], issued = [], errno = 0, sys_closed = []\<rparr> =
     (Ret (ErrorCode 9), \<lparr>this_fd = - 1, this_file_size = 7\<rparr>, ?E1)"
    by (simp add: ReadFileImpl_Close_def CloseFile_def FiberCall_def)
  have w: "WriteFileImpl_Close \<lparr>this_fd = 5, this_offs = 12, this_create_file_name = ''log''\<rparr>
     \<lparr>pending = [0, 3], issued = [], errno = 0, sys_closed = []\<rparr> =
     (Ret (ErrorCode 0), \<lparr>this_fd = - 1, this_offs = 12, this_create_file_name = ''log''\<rparr>,
      ?E2)"
    by (simp add: WriteFileImpl_Close_def CloseFile_def FiberCall_def)
  have l: "LinuxFileImpl_Close \<lparr>this_fd = 5\<rparr>
     \<lparr>pending = [0, 3], issued = [], errno = 0, sys_closed = []\<rparr> =
     (Ret (ErrorCode 0), \<lparr>this_fd = - 1\<rparr>, ?E2)"
    by (simp add: LinuxFileImpl_Close_def CloseFile_def FiberCall_def)
  note again_r = idempotent_close [where fr = "\<lparr>this_fd = 5, this_file_size = 7\<rparr>"
      and e = "\<lparr>pending = [- 9], issued = [], errno = 0, sys_closed = []\<rparr>"
      and ec = "ErrorCode 9" and ?fr1.0 = "\<lparr>this_fd = - 1, this_file_size = 7\<rparr>"
      and ?e1.0 = ?E1]
  note again_wl = idempotent_close
    [where fw = "\<lparr>this_fd = 5, this_offs = 12, this_create_file_name = ''log''\<rparr>"
      and fl = "\<lparr>this_fd = 5\<rparr>"
      and e = "\<lparr>pending = [0, 3], issued = [], errno = 0, sys_closed = []\<rparr>"
      and ec = "ErrorCode 0"
      and ?fw1.0 = "\<lparr>this_fd = - 1, this_offs = 12, this_create_file_name = ''log''\<rparr>"
      and ?fl1.0 = "\<lparr>this_fd = - 1\<rparr>" and ?e1.0 = ?E2]
  from again_r again_wl r w l show ?thesis
    by simp
qed

subsection \<open>The empty buffer list\<close>

text \<open>
  Claim C9. On a descriptor that is not negative (or in a build without \<^verbatim>\<open>DCHECK\<close>s),
  \<^verbatim>\<open>ReadFileImpl::Read\<close> with an empty buffer list returns the byte count 0 for every
  offset and leaves the proactor as it was: nothing is submitted. The positional
  primitive, called with the same empty list, fails its \<^verbatim>\<open>CHECK_GT(iovcnt, 0u)\<close>.
\<close>

theorem read_empty_list:
  assumes "dbg \<longrightarrow> this_fd f \<ge> 0"
  shows "ReadFileImpl_Read dbg f offset [] e = (Ret (Inr 0), e)
       \<and> ReadSomeInternal (this_fd f) [] (int offset) 0 e = (Abort, e)"
  using assms by (auto simp: ReadFileImpl_Read_def ReadSomeInternal_def)

theorem read_empty_list_witness:
  "ReadFileImpl_Read True \<lparr>this_fd = 3, this_file_size = 7\<rparr> 4 []
     \<lparr>pending = [2], issued = [], errno = 0, sys_closed = []\<rparr> =
     (Ret (Inr 0), \<lparr>pending = [2], issued = [], errno = 0, sys_closed = []\<rparr>)
   \<and> ReadSomeInternal 3 [] 4 0 \<lparr>pending = [2], issued = [], errno = 0, sys_closed = []\<rparr> =
     (Abort, \<lparr>pending = [2], issued = [], errno = 0, sys_closed = []\<rparr>)"
  using read_empty_list [of True "\<lparr>this_fd = 3, this_file_size = 7\<rparr>" 4
      "\<lparr>pending = [2], issued = [], errno = 0, sys_closed = []\<rparr>"]
  by simp

subsection \<open>Opening twice\<close>

text \<open>
  Claim C8. \<^verbatim>\<open>WriteFileImpl::Open\<close> on a file that already holds a descriptor fails its
  \<^verbatim>\<open>CHECK_EQ(fd_, -1)\<close>: it submits no open entry and the descriptor it holds stays.
\<close>

theorem double_open_fails:
  assumes "this_fd f \<ge> 0"
  shows "WriteFileImpl_Open f flags e = (Abort, f, e)"
  using assms by (simp add: WriteFileImpl_Open_def)

theorem double_open_fails_witness:
  "WriteFileImpl_Open \<lparr>this_fd = 5, this_offs = 0, this_create_file_name = ''log''\<rparr>
     {O_CREAT, O_WRONLY} \<lparr>pending = [6], issued = [], errno = 0, sys_closed = []\<rparr> =
     (Abort, \<lparr>this_fd = 5, this_offs = 0, this_create_file_name = ''log''\<rparr>,
      \<lparr>pending = [6], issued = [], errno = 0, sys_closed = []\<rparr>)"
  using double_open_fails
    [of "\<lparr>this_fd = 5, this_offs = 0, this_create_file_name = ''log''\<rparr>" "{O_CREAT, O_WRONLY}"
      "\<lparr>pending = [6], issued = [], errno = 0, sys_closed = []\<rparr>"]
  by simp

subsection \<open>The write cursor\<close>

lemma WriteSome_offs:
  "WriteFileImpl_WriteSome f v e = (Ret r, f', e') \<Longrightarrow>
   this_offs f' = this_offs f + int (written r)"
  by (auto simp: WriteFileImpl_WriteSome_def split: prod.splits outcome.splits sum.splits)

lemma WriteSome_not_returned:
  "WriteFileImpl_WriteSome f v e = (out, f', e') \<Longrightarrow> f' = f \<or> (\<exists>b. out = Ret (Inr b))"
  by (auto simp: WriteFileImpl_WriteSome_def split: prod.splits outcome.splits sum.splits)

lemma write_calls_offs:
  "write_calls f vs e = (rs, f', e') \<Longrightarrow>
   this_offs f' = this_offs f + int (sum_list (map written rs))"
proof (induction vs arbitrary: f e rs f' e')
  case Nil
  then show ?case by simp
next
  case (Cons v vs)
  obtain out f1 e1 where step: "WriteFileImpl_WriteSome f v e = (out, f1, e1)"
    by (cases "WriteFileImpl_WriteSome f v e") auto
  show ?case
  proof (cases out)
    case (Ret r)
    obtain rs1 f2 e2 where rest: "write_calls f1 vs e1 = (rs1, f2, e2)"
      by (cases "write_calls f1 vs e1") auto
    with Cons.prems step Ret have "rs = r # rs1" and "f' = f2"
      by simp_all
    moreover from Cons.IH [OF rest]
    have "this_offs f2 = this_offs f1 + int (sum_list (map written rs1))" .
    moreover from step Ret have "this_offs f1 = this_offs f + int (written r)"
      by (simp add: WriteSome_offs)
    ultimately show ?thesis
      by simp
  next
    case Abort
    with Cons.prems step WriteSome_not_returned [OF step] show ?thesis
      by auto
  next
    case OutOfBounds
    with Cons.prems step WriteSome_not_returned [OF step] show ?thesis
      by auto
  next
    case Blocked
    with Cons.prems step WriteSome_not_returned [OF step] show ?thesis
      by auto
  qed
qed

lemma OpenWrite_offs: "OpenWrite path opts_append e0 = (Ret (Inr f), e) \<Longrightarrow> this_offs f = 0"
  by (auto simp: OpenWrite_def WriteFileImpl_Open_def WriteFileImpl_new_def Let_def
      split: prod.splits outcome.splits if_splits option.splits)

lemma WriteSome_issued:
  "this_fd f \<ge> 0 \<Longrightarrow> v \<noteq> [] \<Longrightarrow>
   issued (snd (snd (WriteFileImpl_WriteSome f v e))) =
     issued e @ [PrepWriteV (this_fd f) v (this_offs f) 0]"
  by (simp add: WriteFileImpl_WriteSome_def WriteSomeInternal_def FiberCall_def
      split: list.split)

text \<open>
  Claim C3. On a write file fresh from \<^verbatim>\<open>OpenWrite\<close>, after any sequence of
  \<^verbatim>\<open>WriteSome\<close> calls that returned, the cursor \<^verbatim>\<open>offs_\<close> is the sum of the byte counts of
  the calls that succeeded; the next \<^verbatim>\<open>WriteSome\<close> (valid descriptor, non-empty list)
  submits its write at that offset; and a \<^verbatim>\<open>WriteSome\<close> that returns an error leaves the
  cursor where it was.
\<close>

theorem write_cursor:
  assumes "OpenWrite path opts_append e0 = (Ret (Inr f), e)"
    and "write_calls f vs e = (rs, f', e')"
  shows "this_offs f' = int (sum_list (map written rs))
       \<and> (this_fd f' \<ge> 0 \<and> v \<noteq> [] \<longrightarrow>
            issued (snd (snd (WriteFileImpl_WriteSome f' v e'))) =
              issued e' @ [PrepWriteV (this_fd f') v (int (sum_list (map written rs))) 0])
       \<and> (WriteFileImpl_WriteSome f' v e' = (Ret (Inl ec), f'', e'') \<longrightarrow>
            this_offs f'' = this_offs f')"
proof -
  from assms have cursor: "this_offs f' = int (sum_list (map written rs))"
    using OpenWrite_offs write_calls_offs by fastforce
  have "this_offs f'' = this_offs f'"
    if "WriteFileImpl_WriteSome f' v e' = (Ret (Inl ec), f'', e'')"
    using WriteSome_offs [OF that] by simp
  with cursor show ?thesis
    by (simp add: WriteSome_issued)
qed

theorem write_cursor_witness:
  "OpenWrite ''log'' False
     \<lparr>pending = [5, 4, - 28, 6, - 5], issued = [], errno = 0, sys_closed = []\<rparr> =
     (Ret (Inr \<lparr>this_fd = 5, this_offs = 0, this_create_file_name = ''log''\<rparr>),
      \<lparr>pending = [4, - 28, 6, - 5],
       issued = [PrepOpenAt ''log'' {O_CREAT, O_WRONLY, O_CLOEXEC, O_TRUNC} 420],
       errno = 0, sys_closed = []\<rparr>)
   \<and> write_calls \<lparr>this_fd = 5, this_offs = 0, this_create_file_name = ''log''\<rparr>
       [[\<lparr>iov_base = 1000, iov_len = 4\<rparr>], [\<lparr>iov_base = 2000, iov_len = 8\<rparr>],
        [\<lparr>iov_base = 2000, iov_len = 8\<rparr>]]
       \<lparr>pending = [4, - 28, 6, - 5],
        issued = [PrepOpenAt ''log'' {O_CREAT, O_WRONLY, O_CLOEXEC, O_TRUNC} 420],
        errno = 0, sys_closed = []\<rparr> =
     ([Inr 4, Inl (ErrorCode 28), Inr 6],
      \<lparr>this_fd = 5, this_offs = 10, this_create_file_name = ''log''\<rparr>,
      \<lparr>pending = [- 5],
       issued = [PrepOpenAt ''log'' {O_CREAT, O_WRONLY, O_CLOEXEC, O_TRUNC} 420,
                 PrepWriteV 5 [\<lparr>iov_base = 1000, iov_len = 4\<rparr>] 0 0,
                 PrepWriteV 5 [\<lparr>iov_base = 2000, iov_len = 8\<rparr>] 4 0,
                 PrepWriteV 5 [\<lparr>iov_base = 2000, iov_len = 8\<rparr>] 4 0],
       errno = 0, sys_closed = []\<rparr>)
   \<and> WriteFileImpl_WriteSome \<lparr>this_fd = 5, this_offs = 10, this_create_file_name = ''log''\<rparr>
       [\<lparr>iov_base = 3000, iov_len = 2\<rparr>]
       \<lparr>pending = [- 5],
        issued = [PrepOpenAt ''log'' {O_CREAT, O_WRONLY, O_CLOEXEC, O_TRUNC} 420,
                  PrepWriteV 5 [\<lparr>iov_base = 1000, iov_len = 4\<rparr>] 0 0,
                  PrepWriteV 5 [\<lparr>iov_base = 2000, iov_len = 8\<rparr>] 4 0,
                  PrepWriteV 5 [\<lparr>iov_base = 2000, iov_len = 8\<rparr>] 4 0],
        errno = 0, sys_closed = []\<rparr> =
     (Ret (Inl (ErrorCode 5)),
      \<lparr>this_fd = 5, this_offs = 10, this_create_file_name = ''log''\<rparr>,
      \<lparr>pending = [],
       issued = [PrepOpenAt ''log'' {O_CREAT, O_WRONLY, O_CLOEXEC, O_TRUNC} 420,
                 PrepWriteV 5 [\<lparr>iov_base = 1000, iov_len = 4\<rparr>] 0 0,
                 PrepWriteV 5 [\<lparr>iov_base = 2000, iov_len = 8\<rparr>] 4 0,
                 PrepWriteV 5 [\<lparr>iov_base = 2000, iov_len = 8\<rparr>] 4 0,
                 PrepWriteV 5 [\<lparr>iov_base = 3000, iov_len = 2\<rparr>] 10 0],
       errno = 0, sys_closed = []\<rparr>)
   \<and> this_offs \<lparr>this_fd = 5, this_offs = 10, this_create_file_name = ''log''\<rparr> =
       int (sum_list (map written [Inr 4, Inl (ErrorCode 28), Inr 6]))"
proof -
  have opened: "OpenWrite ''log'' False
     \<lparr>pending = [5, 4, - 28, 6, - 5], issued = [], errno = 0, sys_closed = []\<rparr> =
     (Ret (Inr \<lparr>this_fd = 5, this_offs = 0, this_create_file_name = ''log''\<rparr>),
      \<lparr>pending = [4, - 28, 6, - 5],
       issued = [PrepOpenAt ''log'' {O_CREAT, O_WRONLY, O_CLOEXEC, O_TRUNC} 420],
       errno = 0, sys_closed = []\<rparr>)"
    by (auto simp: OpenWrite_def WriteFileImpl_Open_def WriteFileImpl_new_def FiberCall_def)
  have calls: "write_calls \<lparr>this_fd = 5, this_offs = 0, this_create_file_name = ''log''\<rparr>
       [[\<lparr>iov_base = 1000, iov_len = 4\<rparr>], [\<lparr>iov_base = 2000, iov_len = 8\<rparr>],
        [\<lparr>iov_base = 2000, iov_len = 8\<rparr>]]
       \<lparr>pending = [4, - 28, 6, - 5],
        issued = [PrepOpenAt ''log'' {O_CREAT, O_WRONLY, O_CLOEXEC, O_TRUNC} 420],
        errno = 0, sys_closed = []\<rparr> =
     ([Inr 4, Inl (ErrorCode 28), Inr 6],
      \<lparr>this_fd = 5, this_offs = 10, this_create_file_name = ''log''\<rparr>,
      \<lparr>pending = [- 5],
       issued = [PrepOpenAt ''log'' {O_CREAT, O_WRONLY, O_CLOEXEC, O_TRUNC} 420,
                 PrepWriteV 5 [\<lparr>iov_base = 1000, iov_len = 4\<rparr>] 0 0,
                 PrepWriteV 5 [\<lparr>iov_base = 2000, iov_len = 8\<rparr>] 4 0,
                 PrepWriteV 5 [\<lparr>iov_base = 2000, iov_len = 8\<rparr>] 4 0],
       errno = 0, sys_closed = []\<rparr>)"
    by (simp add: WriteFileImpl_WriteSome_def WriteSomeInternal_def FiberCall_def)
  have failed: "WriteFileImpl_WriteSome
       \<lparr>this_fd = 5, this_offs = 10, this_create_file_name = ''log''\<rparr>
       [\<lparr>iov_base = 3000, iov_len = 2\<rparr>]
       \<lparr>pending = [- 5],
        issued = [PrepOpenAt ''log'' {O_CREAT, O_WRONLY, O_CLOEXEC, O_TRUNC} 420,
                  PrepWriteV 5 [\<lparr>iov_base = 1000, iov_len = 4\<rparr>] 0 0,
                  PrepWriteV 5 [\<lparr>iov_base = 2000, iov_len = 8\<rparr>] 4 0,
                  PrepWriteV 5 [\<lparr>iov_base = 2000, iov_len = 8\<rparr>] 4 0],
        errno = 0, sys_closed = []\<rparr> =
     (Ret (Inl (ErrorCode 5)),
      \<lparr>this_fd = 5, this_offs = 10, this_create_file_name = ''log''\<rparr>,
      \<lparr>pending = [],
       issued = [PrepOpenAt ''log'' {O_CREAT, O_WRONLY, O_CLOEXEC, O_TRUNC} 420,
                 PrepWriteV 5 [\<lparr>iov_base = 1000, iov_len = 4\<rparr>] 0 0,
                 PrepWriteV 5 [\<lparr>iov_base = 2000, iov_len = 8\<rparr>] 4 0,
                 PrepWriteV 5 [\<lparr>iov_base = 2000, iov_len = 8\<rparr>] 4 0,
                 PrepWriteV 5 [\<lparr>iov_base = 3000, iov_len = 2\<rparr>] 10 0],
       errno = 0, sys_closed = []\<rparr>)"
    by (simp add: WriteFileImpl_WriteSome_def WriteSomeInternal_def FiberCall_def)
  from write_cursor [OF opened calls] opened calls failed show ?thesis
    by simp
qed

subsection \<open>The size of a read-only file\<close>

lemma ReadFileImpl_Close_size:
  "ReadFileImpl_Close f e = (out, f', e') \<Longrightarrow> this_file_size f' = this_file_size f"
  by (auto simp: ReadFileImpl_Close_def split: prod.splits outcome.splits)

lemma reader_calls_size:
  "reader_calls dbg f cs e = (f', e') \<Longrightarrow> this_file_size f' = this_file_size f"
proof (induction dbg f cs e rule: reader_calls.induct)
  case (1 dbg f e)
  then show ?case by simp
next
  case (2 dbg f offset v cs e)
  obtain out e1 where rd: "ReadFileImpl_Read dbg f offset v e = (out, e1)"
    by (cases "ReadFileImpl_Read dbg f offset v e") auto
  show ?case
  proof (cases out)
    case (Ret r)
    with "2.prems" rd have "reader_calls dbg f cs e1 = (f', e')"
      by simp
    with "2.IH" rd Ret show ?thesis
      by simp
  qed (use "2.prems" rd in auto)
next
  case (3 dbg f cs e)
  obtain out f1 e1 where cl: "ReadFileImpl_Close f e = (out, f1, e1)"
    by (cases "ReadFileImpl_Close f e") auto
  note same = ReadFileImpl_Close_size [OF cl]
  show ?case
  proof (cases out)
    case (Ret ec)
    with "3.prems" cl have "reader_calls dbg f1 cs e1 = (f', e')"
      by simp
    with "3.IH" cl Ret same show ?thesis
      by simp
  qed (use "3.prems" cl same in auto)
qed

lemma OpenRead_size:
  "OpenRead path st e0 = (Ret (Inr f), e) \<Longrightarrow> st = Inr (this_file_size f)"
  by (cases st)
     (auto simp: OpenRead_def fstat_def Let_def
       split: prod.splits option.splits if_splits)

text \<open>
  Claim C7. When \<^verbatim>\<open>OpenRead\<close> returns a file, \<^verbatim>\<open>Size\<close> is the \<^verbatim>\<open>st_size\<close> that
  \<^verbatim>\<open>fstat\<close> reported, and after any sequence of \<^verbatim>\<open>Read\<close> and \<^verbatim>\<open>Close\<close> calls on the file
  \<^verbatim>\<open>Size\<close> still returns that value.
\<close>

theorem size_invariant:
  assumes "OpenRead path st e0 = (Ret (Inr f), e)"
    and "reader_calls dbg f cs e = (f', e')"
  shows "st = Inr (ReadFileImpl_Size f) \<and> ReadFileImpl_Size f' = ReadFileImpl_Size f"
  using OpenRead_size [OF assms(1)] reader_calls_size [OF assms(2)]
  by (simp add: ReadFileImpl_Size_def)

theorem size_invariant_witness:
  "OpenRead ''data'' (Inr 10)
     \<lparr>pending = [5, 0, 4, 6, 0], issued = [], errno = 0, sys_closed = []\<rparr> =
     (Ret (Inr \<lparr>this_fd = 5, this_file_size = 10\<rparr>),
      \<lparr>pending = [4, 6, 0],
       issued = [PrepOpenAt ''data'' {O_RDONLY, O_CLOEXEC} 0, PrepFadvise 5 0 0],
       errno = 0, sys_closed = []\<rparr>)
   \<and> reader_calls True \<lparr>this_fd = 5, this_file_size = 10\<rparr>
       [CallRead 0 [\<lparr>iov_base = 1000, iov_len = 10\<rparr>], CallClose]
       \<lparr>pending = [4, 6, 0],
        issued = [PrepOpenAt ''data'' {O_RDONLY, O_CLOEXEC} 0, PrepFadvise 5 0 0],
        errno = 0, sys_closed = []\<rparr> =
     (\<lparr>this_fd = - 1, this_file_size = 10\<rparr>,
      \<lparr>pending = [],
       issued = [PrepOpenAt ''data'' {O_RDONLY, O_CLOEXEC} 0, PrepFadvise 5 0 0,
                 PrepReadV 5 [\<lparr>iov_base = 1000, iov_len = 10\<rparr>] 0 0, PrepRead 5 1004 6 4,
                 PrepClose 5],
       errno = 0, sys_closed = []\<rparr>)
   \<and> ReadFileImpl_Size \<lparr>this_fd = - 1, this_file_size = 10\<rparr> = 10"
proof -
  have opened: "OpenRead ''data'' (Inr 10)
     \<lparr>pending = [5, 0, 4, 6, 0], issued = [], errno = 0, sys_closed = []\<rparr> =
     (Ret (Inr \<lparr>this_fd = 5, this_file_size = 10\<rparr>),
      \<lparr>pending = [4, 6, 0],
       issued = [PrepOpenAt ''data'' {O_RDONLY, O_CLOEXEC} 0, PrepFadvise 5 0 0],
       errno = 0, sys_closed = []\<rparr>)"
    by (simp add: OpenRead_def fstat_def FiberCall_def)
  have calls: "reader_calls True \<lparr>this_fd = 5, this_file_size = 10\<rparr>
       [CallRead 0 [\<lparr>iov_base = 1000, iov_len = 10\<rparr>], CallClose]
       \<lparr>pending = [4, 6, 0],
        issued = [PrepOpenAt ''data'' {O_RDONLY, O_CLOEXEC} 0, PrepFadvise 5 0 0],
        errno = 0, sys_closed = []\<rparr> =
     (\<lparr>this_fd = - 1, this_file_size = 10\<rparr>,
      \<lparr>pending = [],
       issued = [PrepOpenAt ''data'' {O_RDONLY, O_CLOEXEC} 0, PrepFadvise 5 0 0,
                 PrepReadV 5 [\<lparr>iov_base = 1000, iov_len = 10\<rparr>] 0 0, PrepRead 5 1004 6 4,
                 PrepClose 5],
       errno = 0, sys_closed = []\<rparr>)"
    by (simp add: ReadFileImpl_Read_def Read_loop.simps ReadSomeInternal_def FiberCall_def
        ReadAll_def ReadAll_loop.simps ReadFileImpl_Close_def CloseFile_def)
  from size_invariant [OF opened calls] opened calls show ?thesis
    by (simp add: ReadFileImpl_Size_def)
qed

subsection \<open>What a read returns\<close>




















subsection \<open>The retry loop asks for too much\<close>

text \<open>
  Claim C1, on one buffer of 10 bytes at address 1000 and a file of 13 bytes whose reads
  complete with 3, 3, 7 and 0 bytes, each within what the entry asked for. The third
  entry, \<open>PrepRead 3 1006 7 6\<close>, asks for 7 bytes at address 1006, where 4 bytes of the
  buffer are left: \<^verbatim>\<open>ReadAll\<close> moves \<^verbatim>\<open>next\<close> and \<^verbatim>\<open>offset\<close> forward and keeps \<^verbatim>\<open>len\<close>.
  \<^verbatim>\<open>Read\<close> returns 13, more than the 10 bytes of the buffer list, in either build.
\<close>

theorem read_returns_more_than_the_buffers_hold:
  "sum_list (map iov_len [\<lparr>iov_base = 1000, iov_len = 10\<rparr>]) = 10
   \<and> ReadFileImpl_Read True \<lparr>this_fd = 3, this_file_size = 13\<rparr> 0
       [\<lparr>iov_base = 1000, iov_len = 10\<rparr>]
       \<lparr>pending = [3, 3, 7, 0], issued = [], errno = 0, sys_closed = []\<rparr> =
     (Ret (Inr 13),
      \<lparr>pending = [],
       issued = [PrepReadV 3 [\<lparr>iov_base = 1000, iov_len = 10\<rparr>] 0 0, PrepRead 3 1003 7 3,
                 PrepRead 3 1006 7 6, PrepRead 3 1013 7 13],
       errno = 0, sys_closed = []\<rparr>)
   \<and> ReadFileImpl_Read False \<lparr>this_fd = 3, this_file_size = 13\<rparr> 0
       [\<lparr>iov_base = 1000, iov_len = 10\<rparr>]
       \<lparr>pending = [3, 3, 7, 0], issued = [], errno = 0, sys_closed = []\<rparr> =
     (Ret (Inr 13),
      \<lparr>pending = [],
       issued = [PrepReadV 3 [\<lparr>iov_base = 1000, iov_len = 10\<rparr>] 0 0, PrepRead 3 1003 7 3,
                 PrepRead 3 1006 7 6, PrepRead 3 1013 7 13],
       errno = 0, sys_closed = []\<rparr>)
   \<and> list_all fits
       (zip [PrepReadV 3 [\<lparr>iov_base = 1000, iov_len = 10\<rparr>] 0 0, PrepRead 3 1003 7 3,
             PrepRead 3 1006 7 6, PrepRead 3 1013 7 13]
            [3, 3, 7, 0])"
  by (simp add: ReadFileImpl_Read_def Read_loop.simps ReadSomeInternal_def ReadAll_def
      ReadAll_loop.simps FiberCall_def)

subsection \<open>Failures inside \<^verbatim>\<open>OpenRead\<close>\<close>

lemma OpenRead_stat_fails:
  assumes "pending e = fd # rs" and "0 \<le> fd"
  shows "OpenRead path (Inl n) e =
           (Ret (Inl (ErrorCode n)),
            e\<lparr>pending := rs, issued := issued e @ [PrepOpenAt path {O_RDONLY, O_CLOEXEC} 0],
              errno := n, sys_closed := sys_closed e @ [fd]\<rparr>)"
  using assms by (simp add: OpenRead_def FiberCall_def fstat_def sys_close_def)

lemma OpenRead_advice_fails:
  assumes "pending e = fd # r # rs" and "0 \<le> fd" and "r < 0"
  shows "OpenRead path (Inr sz) e =
           (Ret (Inl (ErrorCode (errno e))),
            e\<lparr>pending := rs,
              issued := issued e @ [PrepOpenAt path {O_RDONLY, O_CLOEXEC} 0, PrepFadvise fd 0 0],
              sys_closed := sys_closed e @ [fd]\<rparr>)"
  using assms by (simp add: OpenRead_def FiberCall_def fstat_def sys_close_def)

text \<open>
  Claim C6, on an open that completes with descriptor 5, an \<^verbatim>\<open>fstat\<close> that succeeds and
  an advice that completes with \<open>- 22\<close>, while \<^verbatim>\<open>errno\<close> holds 2 from some earlier call.
  \<^verbatim>\<open>OpenRead\<close> closes descriptor 5 and returns the error code 2, the value of \<^verbatim>\<open>errno\<close>,
  not 22; with \<^verbatim>\<open>errno\<close> 0 it returns the error code 0.
\<close>

theorem open_read_advice_error_is_errno:
  "OpenRead ''data'' (Inr 10)
     \<lparr>pending = [5, - 22], issued = [], errno = 2, sys_closed = []\<rparr> =
     (Ret (Inl (ErrorCode 2)),
      \<lparr>pending = [],
       issued = [PrepOpenAt ''data'' {O_RDONLY, O_CLOEXEC} 0, PrepFadvise 5 0 0],
       errno = 2, sys_closed = [5]\<rparr>)
   \<and> OpenRead ''data'' (Inr 10)
     \<lparr>pending = [5, - 22], issued = [], errno = 0, sys_closed = []\<rparr> =
     (Ret (Inl (ErrorCode 0)),
      \<lparr>pending = [],
       issued = [PrepOpenAt ''data'' {O_RDONLY, O_CLOEXEC} 0, PrepFadvise 5 0 0],
       errno = 0, sys_closed = [5]\<rparr>)"
  by (simp add: OpenRead_def FiberCall_def fstat_def sys_close_def)

end
